theory Spec2Isabelle
  imports Main
begin

section \<open>Data model\<close>

text \<open>
  The program is one Python module, \<^verbatim>\<open>videoplayerfromYTurl.py\<close>. It reads a URL, asks
  yt-dlp for a stream URL, hands it to a VLC player, starts a listener thread for the
  commands \<^verbatim>\<open>q\<close> and \<^verbatim>\<open>p\<close>, and polls the player until it has ended.

  Python strings are modelled as \<^typ>\<open>string\<close>, one \<^typ>\<open>char\<close> per code point, so the
  model covers the code points U+0000 to U+00FF. Everything the module does to the outside
  world (printing, prompting, calling yt-dlp or VLC, sleeping) is recorded, in order, as a
  list of events; everything the outside world answers is an input of the model.
\<close>

datatype state =
  NothingSpecial | Opening | Buffering | Playing | Paused | Stopped | Ended | Error

text \<open>
  \<^typ>\<open>state\<close> is the enumeration \<^verbatim>\<open>vlc.State\<close> of python-vlc; the module names two of
  its members, \<^verbatim>\<open>vlc.State.Ended\<close> and \<^verbatim>\<open>vlc.State.Error\<close>.
\<close>

datatype event =
    Prompt string            \<comment> \<open>\<^verbatim>\<open>input(prompt)\<close>\<close>
  | Print string             \<comment> \<open>\<^verbatim>\<open>print(text)\<close>\<close>
  | PrintState string state  \<comment> \<open>\<^verbatim>\<open>print(text, player.get_state())\<close>\<close>
  | ExtractInfo string       \<comment> \<open>\<^verbatim>\<open>ydl.extract_info(url, download=False)\<close>\<close>
  | InfoGet string           \<comment> \<open>\<^verbatim>\<open>info.get(key)\<close>\<close>
  | NewPlayer string         \<comment> \<open>\<^verbatim>\<open>vlc.MediaPlayer(url)\<close>\<close>
  | Play                     \<comment> \<open>\<^verbatim>\<open>player.play()\<close>\<close>
  | Pause                    \<comment> \<open>\<^verbatim>\<open>player.pause()\<close>\<close>
  | Stop                     \<comment> \<open>\<^verbatim>\<open>player.stop()\<close>\<close>
  | GetState                 \<comment> \<open>\<^verbatim>\<open>player.get_state()\<close>\<close>
  | Sleep nat                \<comment> \<open>\<^verbatim>\<open>time.sleep\<close>, in milliseconds\<close>
  | IsPressed string         \<comment> \<open>\<^verbatim>\<open>keyboard.is_pressed(key)\<close>\<close>
  | StartListener            \<comment> \<open>\<^verbatim>\<open>listener.start()\<close>\<close>

text \<open>A call into a library either raises an \<^verbatim>\<open>Exception\<close> (with its text) or returns.\<close>

datatype 'a outcome = Raised string | Returned 'a

text \<open>
  One entry of \<^verbatim>\<open>info['formats']\<close>: a dictionary read at the keys \<^verbatim>\<open>vcodec\<close> and
  \<^verbatim>\<open>url\<close>; \<^term>\<open>None\<close> is what \<^verbatim>\<open>dict.get\<close> gives for a key that is absent.
\<close>

record fmt =
  fmt_vcodec :: "string option"
  fmt_url :: "string option"

text \<open>
  What the loop \<^verbatim>\<open>for fmt in ...\<close> meets: a dictionary, or a value that has no method
  \<^verbatim>\<open>get\<close> (given by the name of its type, as in \<^verbatim>\<open>NoneType\<close>), on which
  \<^verbatim>\<open>fmt.get\<close> raises \<^verbatim>\<open>AttributeError\<close>.
\<close>

datatype entry = Dict fmt | NoGet string

text \<open>
  What \<^verbatim>\<open>info.get('formats', [])\<close> gives: the default \<^verbatim>\<open>[]\<close> when the key is absent,
  the items of the value when it can be iterated, or a value that cannot be iterated
  (given by the name of its type; \<^verbatim>\<open>None\<close> is one), on which the \<^verbatim>\<open>for\<close> statement
  raises \<^verbatim>\<open>TypeError\<close>.
\<close>

datatype formats = Absent | Listed "entry list" | Uniterable string

text \<open>
  The dictionary returned by \<^verbatim>\<open>extract_info\<close>, read at the keys \<^verbatim>\<open>url\<close> and
  \<^verbatim>\<open>formats\<close>. The value at \<^verbatim>\<open>url\<close> is a string, or \<^term>\<open>None\<close> when the key is
  absent or holds \<^verbatim>\<open>None\<close>.
\<close>

record info =
  info_url :: "string option"
  info_formats :: formats

section \<open>String primitives of Python\<close>

text \<open>\<^verbatim>\<open>str.isspace\<close> on one code point below U+0100.\<close>

definition isspace :: "char \<Rightarrow> bool" where
  "isspace c =
     (let n = (of_char c :: nat)
      in (9 \<le> n \<and> n \<le> 13) \<or> (28 \<le> n \<and> n \<le> 32) \<or> n = 133 \<or> n = 160)"

text \<open>\<^verbatim>\<open>str.strip()\<close>: leading and trailing whitespace removed.\<close>

definition strip :: "string \<Rightarrow> string" where
  "strip s = rev (dropWhile isspace (rev (dropWhile isspace s)))"

text \<open>\<^verbatim>\<open>str.lower()\<close> on code points below U+0100.\<close>

definition lower_char :: "char \<Rightarrow> char" where
  "lower_char c =
     (let n = (of_char c :: nat)
      in if (65 \<le> n \<and> n \<le> 90) \<or> (192 \<le> n \<and> n \<le> 214) \<or> (216 \<le> n \<and> n \<le> 222)
         then char_of (n + 32) else c)"

definition lower :: "string \<Rightarrow> string" where
  "lower s = map lower_char s"

text \<open>Truth value of an optional string: \<^verbatim>\<open>None\<close> and \<^verbatim>\<open>''\<close> are false.\<close>

fun truthy :: "string option \<Rightarrow> bool" where
  "truthy None = False"
| "truthy (Some s) = (s \<noteq> [])"

section \<open>Resolver: \<^verbatim>\<open>get_video_stream_url\<close>\<close>

definition codec_none :: "fmt \<Rightarrow> bool" where
  "codec_none f = (fmt_vcodec f = Some ''none'')"

text \<open>
  The texts of the \<^verbatim>\<open>AttributeError\<close> raised by \<^verbatim>\<open>x.get\<close> and of the
  \<^verbatim>\<open>TypeError\<close> raised by \<^verbatim>\<open>for fmt in x\<close>, for a value \<^verbatim>\<open>x\<close> of the type named.
\<close>

definition no_attribute_get :: "string \<Rightarrow> string" where
  "no_attribute_get t =
     [CHR 0x27] @ t @ [CHR 0x27] @ '' object has no attribute '' @ [CHR 0x27] @ ''get''
       @ [CHR 0x27]"

definition not_iterable :: "string \<Rightarrow> string" where
  "not_iterable t = [CHR 0x27] @ t @ [CHR 0x27] @ '' object is not iterable''"

text \<open>
  The body of the fallback loop over the items. \<^term>\<open>cur\<close> is the value
  \<^verbatim>\<open>stream_url\<close> has before the loop; it is what the loop leaves when no item ends it
  by \<^verbatim>\<open>break\<close>. The loop raises at an item that has no \<^verbatim>\<open>get\<close>.
\<close>

fun scan_formats :: "string option \<Rightarrow> entry list \<Rightarrow> string option outcome" where
  "scan_formats cur [] = Returned cur"
| "scan_formats cur (Dict f # es) =
     (if fmt_vcodec f \<noteq> Some ''none'' then Returned (fmt_url f) else scan_formats cur es)"
| "scan_formats cur (NoGet t # es) = Raised (no_attribute_get t)"

text \<open>The statement \<^verbatim>\<open>for fmt in info.get('formats', [])\<close>.\<close>

fun fallback :: "string option \<Rightarrow> formats \<Rightarrow> string option outcome" where
  "fallback cur Absent = scan_formats cur []"
| "fallback cur (Listed es) = scan_formats cur es"
| "fallback cur (Uniterable t) = Raised (not_iterable t)"

text \<open>
  \<^verbatim>\<open>get_video_stream_url(yt_url)\<close>, given what \<^verbatim>\<open>extract_info\<close> does for that URL:
  the events, and the value returned. The \<^verbatim>\<open>try\<close> statement spans the whole body, so
  an exception raised by \<^verbatim>\<open>extract_info\<close>, by \<^verbatim>\<open>info.get\<close> on \<^verbatim>\<open>None\<close> or by
  the fallback loop ends in the \<^verbatim>\<open>except\<close> clause: its text is printed and
  \<^verbatim>\<open>None\<close> returned.
\<close>

fun get_video_stream_url :: "string \<Rightarrow> info option outcome \<Rightarrow> event list \<times> string option" where
  "get_video_stream_url yt_url (Raised e) =
     ([ExtractInfo yt_url, Print (''Error extracting video info: '' @ e)], None)"
| "get_video_stream_url yt_url (Returned None) =
     ([ExtractInfo yt_url,
       Print (''Error extracting video info: '' @ no_attribute_get ''NoneType'')], None)"
| "get_video_stream_url yt_url (Returned (Some i)) =
     (if truthy (info_url i) then ([ExtractInfo yt_url, InfoGet ''url''], info_url i)
      else (case fallback (info_url i) (info_formats i) of
              Raised e \<Rightarrow>
                ([ExtractInfo yt_url, InfoGet ''url'', InfoGet ''formats'',
                  Print (''Error extracting video info: '' @ e)], None)
            | Returned stream_url \<Rightarrow>
                ([ExtractInfo yt_url, InfoGet ''url'', InfoGet ''formats''], stream_url)))"

section \<open>Control listener: \<^verbatim>\<open>listen_for_controls\<close>\<close>

text \<open>
  The listener either has left its loop (after \<^verbatim>\<open>player.stop()\<close>) or is still in it,
  waiting for the next answer of the keyboard or the next line.
\<close>

datatype listener = Left | Listening

fun prepend :: "event list \<Rightarrow> event list \<times> 'a \<Rightarrow> event list \<times> 'a" where
  "prepend es (tr, r) = (es @ tr, r)"

text \<open>
  The loop of the keyboard mode, over the answers of the successive calls of
  \<^verbatim>\<open>keyboard.is_pressed\<close>.
\<close>

fun hook_loop :: "bool list \<Rightarrow> event list \<times> listener" where
  "hook_loop [] = ([], Listening)"
| "hook_loop (True # answers) =
     ([IsPressed ''q'', Print ''Detected 'q' key press. Stopping playback...'', Stop], Left)"
| "hook_loop [False] = ([IsPressed ''q''], Listening)"
| "hook_loop (False # True # answers) =
     prepend [IsPressed ''q'', IsPressed ''p'',
              Print ''Detected 'p' key press. Toggling pause/resume...'',
              Pause, Sleep 400, Sleep 100] (hook_loop answers)"
| "hook_loop (False # False # answers) =
     prepend [IsPressed ''q'', IsPressed ''p'', Sleep 100] (hook_loop answers)"

text \<open>The loop of the manual mode, over the lines that \<^verbatim>\<open>input\<close> returns.\<close>

fun input_loop :: "string list \<Rightarrow> event list \<times> listener" where
  "input_loop [] = ([Prompt ''Command: ''], Listening)"
| "input_loop (line # lines) =
     (let command = lower (strip line)
      in if command = ''q''
         then ([Prompt ''Command: '',
                Print ''Stop command received from input. Stopping playback...'', Stop], Left)
         else if command = ''p''
         then prepend
                [Prompt ''Command: '',
                 Print ''Pause/resume command received from input. Toggling pause/resume...'',
                 Pause] (input_loop lines)
         else prepend
                [Prompt ''Command: '', Print ''Invalid command. Please enter 'q' or 'p'.'']
                (input_loop lines))"

definition listen_for_controls ::
    "bool \<Rightarrow> bool list \<Rightarrow> string list \<Rightarrow> event list \<times> listener" where
  "listen_for_controls use_keyboard answers lines =
     (if use_keyboard
      then prepend [Print ''Press 'q' to stop playback or 'p' to toggle pause/resume.'']
             (hook_loop answers)
      else prepend [Print ''Enter command: 'q' to quit or 'p' to toggle pause/resume.'']
             (input_loop lines))"

section \<open>Orchestrator: \<^verbatim>\<open>main\<close>\<close>

text \<open>
  One turn of the wait loop: the player reports a state and, if the loop goes on, the
  sleep completes; or \<^verbatim>\<open>KeyboardInterrupt\<close> is raised during \<^verbatim>\<open>get_state\<close>; or the
  player reports a state and \<^verbatim>\<open>KeyboardInterrupt\<close> is raised during the sleep.
\<close>

datatype tick = Reports state | InterruptedPolling | InterruptedSleeping state

definition terminal :: "state \<Rightarrow> bool" where
  "terminal s = (s = Ended \<or> s = Error)"

definition interrupted_text :: string where
  "interrupted_text = ''Playback interrupted by user (KeyboardInterrupt).''"

text \<open>
  The \<^verbatim>\<open>try\<close> statement around the wait loop. The result says whether the statement
  has been left; it has not when the ticks run out with the player in no terminal state.
\<close>

fun wait_loop :: "tick list \<Rightarrow> event list \<times> bool" where
  "wait_loop [] = ([], False)"
| "wait_loop (Reports s # ticks) =
     (if terminal s then ([GetState], True)
      else prepend [GetState, Sleep 1000] (wait_loop ticks))"
| "wait_loop (InterruptedPolling # ticks) = ([GetState, Print interrupted_text], True)"
| "wait_loop (InterruptedSleeping s # ticks) =
     (if terminal s then ([GetState], True)
      else ([GetState, Sleep 1000, Print interrupted_text], True))"

text \<open>
  What the outside world answers in one run of \<^verbatim>\<open>main\<close>: the line typed at the prompt,
  what yt-dlp does for a URL, what the constructor of the player does for a stream URL,
  the value of \<^verbatim>\<open>player.play()\<close>, the state seen after the settling sleep, and the turns
  of the wait loop.
\<close>

record world =
  typed :: string
  extract_info :: "string \<Rightarrow> info option outcome"
  MediaPlayer :: "string \<Rightarrow> unit outcome"
  play :: int
  first_state :: state
  ticks :: "tick list"

text \<open>
  The part of \<^verbatim>\<open>main\<close> after \<^verbatim>\<open>player.play()\<close> has not returned \<^verbatim>\<open>-1\<close>. The exit
  status is \<^term>\<open>Some 0\<close> when \<^verbatim>\<open>main\<close> returns and \<^term>\<open>None\<close> while it is still in
  the wait loop.
\<close>

definition wait_phase :: "world \<Rightarrow> event list \<times> int option" where
  "wait_phase w =
     (case wait_loop (ticks w) of
        (tr, left) \<Rightarrow>
          ([Sleep 1000, GetState, PrintState ''Initial VLC player state:'' (first_state w),
            StartListener] @ tr @ (if left then [Print ''Video playback ended.''] else []),
           if left then Some 0 else None))"

text \<open>
  \<^verbatim>\<open>main()\<close>: the events of the main thread and the exit status of the process.
  \<^verbatim>\<open>sys.exit(1)\<close> ends the run with status 1. The stream URL is used only once it
  has passed the test \<^verbatim>\<open>if not stream_url\<close>. The listener thread is started and never
  joined; what it does is the subject of \<^const>\<open>listen_for_controls\<close> and is not part
  of this list.
\<close>

definition main :: "world \<Rightarrow> event list \<times> int option" where
  "main w =
     prepend [Prompt ''Enter YouTube URL: '']
       (let yt_url = strip (typed w)
        in if yt_url = [] then ([Print ''Invalid URL. Exiting.''], Some 1)
           else
             (case get_video_stream_url yt_url (extract_info w yt_url) of
                (tr, stream_url) \<Rightarrow>
                  prepend tr
                    (case (if truthy stream_url then stream_url else None) of
                       None \<Rightarrow>
                         ([Print
                            ''Could not retrieve a valid video stream URL from the provided link.''],
                          Some 1)
                     | Some u \<Rightarrow>
                         prepend [Print ''Starting video playback...'', NewPlayer u]
                           (case MediaPlayer w u of
                              Raised e \<Rightarrow>
                                ([Print (''Error initializing VLC MediaPlayer: '' @ e)], Some 1)
                            | Returned player \<Rightarrow>
                                prepend [Play]
                                  (if play w = - 1
                                   then ([Print
                                     ''VLC failed to start playback. Check your VLC installation.''],
                                         Some 1)
                                   else wait_phase w)))))"

section \<open>Predicates and inputs used in the statements\<close>

text \<open>Events that call the extraction library, and events that command the player.\<close>

fun is_extract :: "event \<Rightarrow> bool" where
  "is_extract (ExtractInfo u) = True"
| "is_extract e = False"

fun is_command :: "event \<Rightarrow> bool" where
  "is_command Play = True"
| "is_command Pause = True"
| "is_command Stop = True"
| "is_command e = False"

text \<open>
  A turn after which the wait loop goes on, and a turn in which \<^verbatim>\<open>KeyboardInterrupt\<close>
  is raised inside the \<^verbatim>\<open>try\<close> statement.
\<close>

fun keeps_waiting :: "tick \<Rightarrow> bool" where
  "keeps_waiting (Reports s) = (\<not> terminal s)"
| "keeps_waiting InterruptedPolling = False"
| "keeps_waiting (InterruptedSleeping s) = False"

fun interrupts :: "tick \<Rightarrow> bool" where
  "interrupts (Reports s) = False"
| "interrupts InterruptedPolling = True"
| "interrupts (InterruptedSleeping s) = (\<not> terminal s)"

text \<open>An item that the fallback loop passes over: a dictionary with the codec \<^verbatim>\<open>none\<close>.\<close>

fun entry_codec_none :: "entry \<Rightarrow> bool" where
  "entry_codec_none (Dict f) = codec_none f"
| "entry_codec_none (NoGet t) = False"

text \<open>
  The failure condition of the resolver as section 4.1 and section 8 of the specification
  word it: the library raises, returns no info, or there is no top-level URL and the format
  list is empty or has the codec \<^verbatim>\<open>none\<close> throughout.
\<close>

definition spec_resolve_fails :: "info option outcome \<Rightarrow> bool" where
  "spec_resolve_fails ex =
     (case ex of
        Raised e \<Rightarrow> True
      | Returned None \<Rightarrow> True
      | Returned (Some i) \<Rightarrow>
          \<not> truthy (info_url i) \<and>
          (case info_formats i of
             Absent \<Rightarrow> True
           | Listed es \<Rightarrow> list_all entry_codec_none es
           | Uniterable t \<Rightarrow> False))"

text \<open>Concrete extraction results and runs.\<close>

definition audio_fmt :: fmt where
  "audio_fmt = \<lparr>fmt_vcodec = Some ''none'', fmt_url = Some ''https://cdn/audio''\<rparr>"

definition h264_fmt :: fmt where
  "h264_fmt = \<lparr>fmt_vcodec = Some ''h264'', fmt_url = Some ''https://cdn/h264''\<rparr>"

definition urlless_fmt :: fmt where
  "urlless_fmt = \<lparr>fmt_vcodec = Some ''vp9'', fmt_url = None\<rparr>"

definition direct_info :: info where
  "direct_info =
     \<lparr>info_url = Some ''https://cdn/v.mp4'',
      info_formats =
        Listed [Dict \<lparr>fmt_vcodec = Some ''h264'', fmt_url = Some ''https://cdn/f1''\<rparr>]\<rparr>"

definition fallback_info :: info where
  "fallback_info =
     \<lparr>info_url = None,
      info_formats = Listed ([Dict audio_fmt, Dict audio_fmt] @ Dict h264_fmt # [])\<rparr>"

definition urlless_first_info :: info where
  "urlless_first_info =
     \<lparr>info_url = None,
      info_formats = Listed ([Dict audio_fmt] @ Dict urlless_fmt # [Dict h264_fmt])\<rparr>"

definition urlless_only_info :: info where
  "urlless_only_info = \<lparr>info_url = None, info_formats = Listed [Dict urlless_fmt]\<rparr>"

definition unlisted_info :: info where
  "unlisted_info = \<lparr>info_url = Some [], info_formats = Uniterable ''NoneType''\<rparr>"

definition blank_world :: world where
  "blank_world =
     \<lparr>typed = [CHR 0x20, CHR 0x09, CHR 0xA0],
      extract_info = (\<lambda>u. Returned (Some \<lparr>info_url = Some u, info_formats = Absent\<rparr>)),
      MediaPlayer = (\<lambda>u. Returned ()), play = 0, first_state = Playing,
      ticks = [Reports Ended]\<rparr>"

definition demo_world :: "info option outcome \<Rightarrow> unit outcome \<Rightarrow> int \<Rightarrow> tick list \<Rightarrow> world" where
  "demo_world ex ctor ret ts =
     \<lparr>typed = '' https://youtu.be/x '', extract_info = (\<lambda>u. ex), MediaPlayer = (\<lambda>u. ctor),
      play = ret, first_state = Opening, ticks = ts\<rparr>"

section \<open>Auxiliary facts\<close>

lemma strip_empty_iff: "strip s = [] \<longleftrightarrow> (\<forall>c\<in>set s. isspace c)"
proof -
  have "dropWhile isspace (rev (dropWhile isspace s)) = [] \<longleftrightarrow> dropWhile isspace s = []"
  proof (cases "dropWhile isspace s")
    case Nil then show ?thesis by (simp del: dropWhile_eq_Nil_conv)
  next
    case (Cons a as)
    then have "\<not> isspace (hd (dropWhile isspace s))" using hd_dropWhile[of isspace s] by simp
    then have "\<not> isspace a" using Cons by simp
    then have "\<exists>x\<in>set (rev (dropWhile isspace s)). \<not> isspace x" using Cons by auto
    then have "dropWhile isspace (rev (dropWhile isspace s)) \<noteq> []"
      by (simp only: dropWhile_eq_Nil_conv) blast
    with Cons show ?thesis by (simp del: dropWhile_eq_Nil_conv)
  qed
  moreover have "dropWhile isspace s = [] \<longleftrightarrow> (\<forall>c\<in>set s. isspace c)"
    by (rule dropWhile_eq_Nil_conv)
  ultimately show ?thesis by (simp only: strip_def rev_is_Nil_conv)
qed

lemma strip_demo: "strip '' https://youtu.be/x '' = ''https://youtu.be/x''"
  by (simp add: strip_def isspace_def)

lemma scan_formats_skip:
  "list_all entry_codec_none ns \<Longrightarrow> scan_formats cur (ns @ es) = scan_formats cur es"
proof (induction ns)
  case Nil
  then show ?case by simp
next
  case (Cons n ns)
  then obtain f where "n = Dict f" "codec_none f" by (cases n) auto
  with Cons show ?case by (simp add: codec_none_def)
qed

lemma scan_formats_dropWhile:
  "scan_formats cur es =
     (case dropWhile entry_codec_none es of
        [] \<Rightarrow> Returned cur
      | Dict f # rest \<Rightarrow> Returned (fmt_url f)
      | NoGet t # rest \<Rightarrow> Raised (no_attribute_get t))"
proof (induction es)
  case Nil
  then show ?case by simp
next
  case (Cons e es)
  then show ?case by (cases e) (simp_all add: codec_none_def)
qed

lemma wait_loop_interrupted:
  "list_all keeps_waiting pre \<Longrightarrow> interrupts t \<Longrightarrow>
   \<exists>es. wait_loop (pre @ t # rest) = (es @ [Print interrupted_text], True)"
proof (induction pre)
  case Nil
  then show ?case by (cases t) auto
next
  case (Cons p pre)
  then obtain es where es: "wait_loop (pre @ t # rest) = (es @ [Print interrupted_text], True)"
    by auto
  from Cons.prems obtain s where p: "p = Reports s" "\<not> terminal s" by (cases p) auto
  have "wait_loop ((p # pre) @ t # rest) = (([GetState, Sleep 1000] @ es) @ [Print interrupted_text], True)"
    using es p by simp
  then show ?case by blast
qed

lemma wait_loop_cut:
  "list_all keeps_waiting pre \<Longrightarrow> interrupts t \<Longrightarrow>
   wait_loop (pre @ t # rest) = wait_loop (pre @ [t])"
proof (induction pre)
  case Nil
  then show ?case by (cases t) auto
next
  case (Cons p pre)
  from Cons.prems obtain s where p: "p = Reports s" "\<not> terminal s" by (cases p) auto
  with Cons show ?case by simp
qed

lemma main_resolved:
  assumes "strip (typed w) = y" and "y \<noteq> []"
    and "get_video_stream_url y (extract_info w y) = (tr, Some u)" and "u \<noteq> []"
  shows "main w =
    prepend (Prompt ''Enter YouTube URL: '' # tr @ [Print ''Starting video playback...'', NewPlayer u])
      (case MediaPlayer w u of
         Raised e \<Rightarrow> ([Print (''Error initializing VLC MediaPlayer: '' @ e)], Some 1)
       | Returned player \<Rightarrow>
           prepend [Play]
             (if play w = - 1
              then ([Print ''VLC failed to start playback. Check your VLC installation.''], Some 1)
              else wait_phase w))"
  using assms by (cases "MediaPlayer w u"; cases "wait_phase w") (simp_all add: main_def)


lemma wait_loop_goes_on:
  "list_all keeps_waiting ts \<Longrightarrow> snd (wait_loop ts) = False"
proof (induction ts)
  case Nil
  then show ?case by simp
next
  case (Cons p ts)
  from Cons.prems obtain s where "p = Reports s" "\<not> terminal s" by (cases p) auto
  with Cons show ?case by (cases "wait_loop ts") simp
qed

lemma wait_loop_not_left_on_stopped:
  "snd (wait_loop (replicate n (Reports Stopped))) = False"
  by (rule wait_loop_goes_on) (simp add: list_all_iff terminal_def)

text \<open>
  Once playback has started, \<^verbatim>\<open>main\<close> does not return as long as every poll reports a
  state other than \<^const>\<open>Ended\<close> and \<^const>\<open>Error\<close>.
\<close>

lemma main_keeps_waiting:
  assumes "strip (typed w) = y" and "y \<noteq> []"
    and "get_video_stream_url y (extract_info w y) = (tr, Some u)" and "u \<noteq> []"
    and "MediaPlayer w u = Returned player" and "play w \<noteq> - 1"
    and "list_all keeps_waiting (ticks w)"
  shows "snd (main w) = None"
proof -
  obtain es where "wait_loop (ticks w) = (es, False)"
    using wait_loop_goes_on [OF assms(7)] by (cases "wait_loop (ticks w)") simp
  then have "snd (wait_phase w) = None" by (simp add: wait_phase_def)
  then show ?thesis
    using main_resolved [OF assms(1-4)] assms(5,6) by (cases "wait_phase w") simp
qed

section \<open>Properties\<close>




text \<open>
  C2. When the line typed at the prompt is empty or consists of whitespace only, \<^verbatim>\<open>main\<close>
  prints \<^verbatim>\<open>Invalid URL. Exiting.\<close> and exits with status 1, and the extraction library
  is never called: the events are the prompt and that message, none of them a call of
  \<^verbatim>\<open>extract_info\<close>.
\<close>

theorem blank_input_exits_before_resolving:
  "list_all isspace (typed w) \<Longrightarrow>
   main w = ([Prompt ''Enter YouTube URL: '', Print ''Invalid URL. Exiting.''], Some 1)
   \<and> filter is_extract (fst (main w)) = []"
proof -
  assume "list_all isspace (typed w)"
  then have "strip (typed w) = []" by (simp add: strip_empty_iff list_all_iff)
  then show ?thesis by (simp add: main_def)
qed

theorem blank_input_exits_before_resolving_witness:
  "list_all isspace (typed blank_world)
   \<and> main blank_world = ([Prompt ''Enter YouTube URL: '', Print ''Invalid URL. Exiting.''], Some 1)
   \<and> filter is_extract (fst (main blank_world)) = []"
proof -
  have h: "list_all isspace (typed blank_world)"
    by (simp add: blank_world_def isspace_def)
  from blank_input_exits_before_resolving [OF h] h show ?thesis by simp
qed

text \<open>
  C3. When the extraction result has a non-empty top-level URL, \<^verbatim>\<open>get_video_stream_url\<close>
  returns exactly that URL, and the only key of the result it reads is \<^verbatim>\<open>url\<close>: the
  format list is not looked at.
\<close>

theorem top_level_url_returned:
  "info_url i = Some u \<Longrightarrow> u \<noteq> [] \<Longrightarrow>
   get_video_stream_url yt_url (Returned (Some i)) = ([ExtractInfo yt_url, InfoGet ''url''], Some u)"
  by simp

theorem top_level_url_returned_witness:
  "info_url direct_info = Some ''https://cdn/v.mp4'' \<and> ''https://cdn/v.mp4'' \<noteq> []
   \<and> get_video_stream_url ''https://youtu.be/x'' (Returned (Some direct_info))
       = ([ExtractInfo ''https://youtu.be/x'', InfoGet ''url''], Some ''https://cdn/v.mp4'')"
proof -
  have h1: "info_url direct_info = Some ''https://cdn/v.mp4''" by (simp add: direct_info_def)
  have h2: "''https://cdn/v.mp4'' \<noteq> []" by simp
  from top_level_url_returned [OF h1 h2, of "''https://youtu.be/x''"] h1 h2 show ?thesis
    by blast
qed

text \<open>
  C4. When the extraction result has no top-level URL (absent or empty) and its format list
  is a run of entries with video codec \<^verbatim>\<open>none\<close> followed by an entry with another
  codec, \<^verbatim>\<open>get_video_stream_url\<close> returns the URL of that entry, the first whose codec
  is not \<^verbatim>\<open>none\<close>; the entries before it are skipped and the entries after it do not
  matter.
\<close>

theorem fallback_first_video_format:
  assumes "\<not> truthy (info_url i)" and "info_formats i = Listed (ns @ Dict f # rest)"
    and "list_all entry_codec_none ns" and "\<not> codec_none f"
  shows "get_video_stream_url yt_url (Returned (Some i))
           = ([ExtractInfo yt_url, InfoGet ''url'', InfoGet ''formats''], fmt_url f)"
proof -
  have "scan_formats (info_url i) (ns @ Dict f # rest) = scan_formats (info_url i) (Dict f # rest)"
    using assms(3) by (rule scan_formats_skip)
  also have "\<dots> = Returned (fmt_url f)" using assms(4) by (simp add: codec_none_def)
  finally show ?thesis using assms(1,2) by simp
qed

theorem fallback_first_video_format_witness:
  "\<not> truthy (info_url fallback_info)
   \<and> info_formats fallback_info = Listed ([Dict audio_fmt, Dict audio_fmt] @ Dict h264_fmt # [])
   \<and> list_all entry_codec_none [Dict audio_fmt, Dict audio_fmt] \<and> \<not> codec_none h264_fmt
   \<and> get_video_stream_url ''https://youtu.be/x'' (Returned (Some fallback_info))
       = ([ExtractInfo ''https://youtu.be/x'', InfoGet ''url'', InfoGet ''formats''],
          Some ''https://cdn/h264'')"
proof -
  have h1: "\<not> truthy (info_url fallback_info)" by (simp add: fallback_info_def)
  have h2: "info_formats fallback_info = Listed ([Dict audio_fmt, Dict audio_fmt] @ Dict h264_fmt # [])"
    by (simp add: fallback_info_def)
  have h3: "list_all entry_codec_none [Dict audio_fmt, Dict audio_fmt]"
    by (simp add: codec_none_def audio_fmt_def)
  have h4: "\<not> codec_none h264_fmt" by (simp add: codec_none_def h264_fmt_def)
  have "fmt_url h264_fmt = Some ''https://cdn/h264''" by (simp add: h264_fmt_def)
  with fallback_first_video_format [OF h1 h2 h3 h4, of "''https://youtu.be/x''"] h1 h2 h3 h4
  show ?thesis by simp
qed

text \<open>
  C5, as stated: \<^verbatim>\<open>get_video_stream_url\<close> returns \<^verbatim>\<open>None\<close> exactly when the library
  raises, or there is no top-level URL and the format list is empty or all \<^verbatim>\<open>none\<close>.
  This fails: for a result with no top-level URL whose only format has the codec
  \<^verbatim>\<open>vp9\<close> and no URL, the function returns \<^verbatim>\<open>None\<close> although the library did not
  raise and the format list is neither empty nor all \<^verbatim>\<open>none\<close>.
\<close>

theorem resolve_failure_counterexample:
  "snd (get_video_stream_url ''https://youtu.be/x'' (Returned (Some urlless_only_info))) = None
   \<and> \<not> spec_resolve_fails (Returned (Some urlless_only_info))"
  by (simp add: spec_resolve_fails_def urlless_only_info_def urlless_fmt_def codec_none_def)

text \<open>
  C5, amended: \<^verbatim>\<open>get_video_stream_url\<close> returns \<^verbatim>\<open>None\<close> exactly when the library
  raises, or returns \<^verbatim>\<open>None\<close> in place of a result, or returns a result without a
  non-empty top-level URL for which one of these holds: the value at \<^verbatim>\<open>formats\<close> cannot
  be iterated; the first item that is not a dictionary with the codec \<^verbatim>\<open>none\<close> has no
  method \<^verbatim>\<open>get\<close>; that first item is a format with a codec other than \<^verbatim>\<open>none\<close> and
  no URL; or there is no such item (the list is absent, empty or \<^verbatim>\<open>none\<close> throughout)
  and the top-level URL is absent. And whenever, for a non-blank input, it returns
  \<^verbatim>\<open>None\<close> or the empty string, \<^verbatim>\<open>main\<close> prints its diagnostic and exits with
  status 1.
\<close>

theorem resolve_failure_cases:
  "(snd (get_video_stream_url yt_url ex) = None \<longleftrightarrow>
      (case ex of
         Raised e \<Rightarrow> True
       | Returned None \<Rightarrow> True
       | Returned (Some i) \<Rightarrow>
           \<not> truthy (info_url i) \<and>
           (case info_formats i of
              Absent \<Rightarrow> info_url i = None
            | Uniterable t \<Rightarrow> True
            | Listed es \<Rightarrow>
                (case dropWhile entry_codec_none es of
                   [] \<Rightarrow> info_url i = None
                 | Dict f # rest \<Rightarrow> fmt_url f = None
                 | NoGet t # rest \<Rightarrow> True))))
   \<and> (strip (typed w) \<noteq> [] \<longrightarrow>
        \<not> truthy (snd (get_video_stream_url (strip (typed w)) (extract_info w (strip (typed w)))))
        \<longrightarrow> main w =
              (Prompt ''Enter YouTube URL: ''
                 # fst (get_video_stream_url (strip (typed w)) (extract_info w (strip (typed w))))
                 @ [Print ''Could not retrieve a valid video stream URL from the provided link.''],
               Some 1))"
proof (intro conjI impI)
  show "snd (get_video_stream_url yt_url ex) = None \<longleftrightarrow>
      (case ex of
         Raised e \<Rightarrow> True
       | Returned None \<Rightarrow> True
       | Returned (Some i) \<Rightarrow>
           \<not> truthy (info_url i) \<and>
           (case info_formats i of
              Absent \<Rightarrow> info_url i = None
            | Uniterable t \<Rightarrow> True
            | Listed es \<Rightarrow>
                (case dropWhile entry_codec_none es of
                   [] \<Rightarrow> info_url i = None
                 | Dict f # rest \<Rightarrow> fmt_url f = None
                 | NoGet t # rest \<Rightarrow> True)))"
  proof (cases ex)
    case (Raised e)
    then show ?thesis by simp
  next
    case (Returned r)
    show ?thesis
    proof (cases r)
      case None
      with Returned show ?thesis by simp
    next
      case (Some i)
      show ?thesis
      proof (cases "truthy (info_url i)")
        case True
        then have "info_url i \<noteq> None" by (cases "info_url i") auto
        with True Returned Some show ?thesis by simp
      next
        case False
        show ?thesis
        proof (cases "info_formats i")
          case Absent
          with False Returned Some show ?thesis by simp
        next
          case (Uniterable t)
          with False Returned Some show ?thesis by simp
        next
          case (Listed es)
          show ?thesis
          proof (cases "dropWhile entry_codec_none es")
            case Nil
            with False Returned Some Listed show ?thesis
              by (simp add: scan_formats_dropWhile [of "info_url i" es]
                  del: dropWhile_eq_Nil_conv)
          next
            case (Cons e rest)
            with False Returned Some Listed show ?thesis
              by (cases e)
                (simp_all add: scan_formats_dropWhile [of "info_url i" es]
                   del: dropWhile_eq_Nil_conv)
          qed
        qed
      qed
    qed
  qed
next
  assume ne: "strip (typed w) \<noteq> []"
    and f: "\<not> truthy (snd (get_video_stream_url (strip (typed w)) (extract_info w (strip (typed w)))))"
  obtain tr r where g: "get_video_stream_url (strip (typed w)) (extract_info w (strip (typed w))) = (tr, r)"
    by (cases "get_video_stream_url (strip (typed w)) (extract_info w (strip (typed w)))")
  with f have "\<not> truthy r" by simp
  with ne g show "main w =
              (Prompt ''Enter YouTube URL: ''
                 # fst (get_video_stream_url (strip (typed w)) (extract_info w (strip (typed w))))
                 @ [Print ''Could not retrieve a valid video stream URL from the provided link.''],
               Some 1)"
    by (simp add: main_def)
qed

theorem resolve_failure_cases_witness:
  "snd (get_video_stream_url ''https://youtu.be/x'' (Returned (Some urlless_first_info))) = None
   \<and> snd (get_video_stream_url ''https://youtu.be/x'' (Returned (Some unlisted_info))) = None
   \<and> strip (typed (demo_world (Returned (Some unlisted_info)) (Returned ()) 0 [])) \<noteq> []
   \<and> main (demo_world (Returned (Some unlisted_info)) (Returned ()) 0 []) =
       ([Prompt ''Enter YouTube URL: '', ExtractInfo ''https://youtu.be/x'', InfoGet ''url'',
         InfoGet ''formats'',
         Print (''Error extracting video info: '' @ not_iterable ''NoneType''),
         Print ''Could not retrieve a valid video stream URL from the provided link.''],
        Some 1)"
proof -
  let ?w = "demo_world (Returned (Some unlisted_info)) (Returned ()) 0 []"
  have s: "strip (typed ?w) = ''https://youtu.be/x''"
    by (simp add: demo_world_def strip_demo)
  have e: "extract_info ?w ''https://youtu.be/x'' = Returned (Some unlisted_info)"
    by (simp add: demo_world_def)
  have g: "get_video_stream_url ''https://youtu.be/x'' (Returned (Some unlisted_info)) =
      ([ExtractInfo ''https://youtu.be/x'', InfoGet ''url'', InfoGet ''formats'',
        Print (''Error extracting video info: '' @ not_iterable ''NoneType'')], None)"
    by (simp add: unlisted_info_def)
  have a: "snd (get_video_stream_url ''https://youtu.be/x'' (Returned (Some urlless_first_info))) = None"
    unfolding resolve_failure_cases
      [of "''https://youtu.be/x''" "Returned (Some urlless_first_info)" ?w, THEN conjunct1]
    by (simp add: urlless_first_info_def codec_none_def audio_fmt_def urlless_fmt_def)
  from resolve_failure_cases [of "''https://youtu.be/x''" "Returned (Some unlisted_info)" ?w] a
  show ?thesis unfolding s e g by simp
qed

text \<open>
  C6. When playback has started and \<^verbatim>\<open>KeyboardInterrupt\<close> is raised in a turn of the
  wait loop (all turns before it having reported a state that is neither \<^verbatim>\<open>Ended\<close> nor
  \<^verbatim>\<open>Error\<close>), the loop is left at that turn, whatever the later turns would have
  been; \<^verbatim>\<open>main\<close> prints the interruption message followed by
  \<^verbatim>\<open>Video playback ended.\<close> and the process exits with status 0.
\<close>

theorem interrupt_is_normal_termination:
  assumes "strip (typed w) = y" and "y \<noteq> []"
    and "get_video_stream_url y (extract_info w y) = (tr, Some u)" and "u \<noteq> []"
    and "MediaPlayer w u = Returned player" and "play w \<noteq> - 1"
    and "ticks w = pre @ t # rest" and "list_all keeps_waiting pre" and "interrupts t"
  shows "snd (main w) = Some 0
         \<and> (\<exists>es. fst (main w) = es @ [Print interrupted_text, Print ''Video playback ended.''])
         \<and> main w = main (w\<lparr>ticks := pre @ [t]\<rparr>)"
proof -
  obtain es where es: "wait_loop (pre @ t # rest) = (es @ [Print interrupted_text], True)"
    using wait_loop_interrupted [OF assms(8,9)] by blast
  have m: "main w = prepend (Prompt ''Enter YouTube URL: '' # tr @
                      [Print ''Starting video playback...'', NewPlayer u, Play]) (wait_phase w)"
    using main_resolved [OF assms(1-4)] assms(5,6) by (cases "wait_phase w") simp
  have wp: "wait_phase w =
      ([Sleep 1000, GetState, PrintState ''Initial VLC player state:'' (first_state w),
        StartListener] @ es @ [Print interrupted_text, Print ''Video playback ended.''], Some 0)"
    using es assms(7) by (simp add: wait_phase_def)
  let ?w' = "w\<lparr>ticks := pre @ [t]\<rparr>"
  have "main ?w' = prepend (Prompt ''Enter YouTube URL: '' # tr @
                      [Print ''Starting video playback...'', NewPlayer u, Play]) (wait_phase ?w')"
    using main_resolved [of ?w' y tr u] assms(1-6) by (cases "wait_phase ?w'") simp
  moreover have "wait_phase ?w' = wait_phase w"
    using wait_loop_cut [OF assms(8,9), of rest] assms(7) by (simp add: wait_phase_def)
  ultimately have same: "main w = main ?w'" using m by simp
  have "fst (main w) = (Prompt ''Enter YouTube URL: '' # tr @
          [Print ''Starting video playback...'', NewPlayer u, Play, Sleep 1000, GetState,
           PrintState ''Initial VLC player state:'' (first_state w), StartListener] @ es)
          @ [Print interrupted_text, Print ''Video playback ended.'']"
    using m wp by simp
  then have "\<exists>es. fst (main w) = es @ [Print interrupted_text, Print ''Video playback ended.'']"
    by blast
  moreover have "snd (main w) = Some 0" using m wp by simp
  ultimately show ?thesis using same by blast
qed

theorem interrupt_is_normal_termination_witness:
  "snd (main (demo_world (Returned (Some direct_info)) (Returned ()) 0
          ([Reports Playing, Reports Stopped] @ InterruptedSleeping Paused # [Reports Ended])))
     = Some 0
   \<and> fst (main (demo_world (Returned (Some direct_info)) (Returned ()) 0
          ([Reports Playing, Reports Stopped] @ InterruptedSleeping Paused # [Reports Ended])))
     = [Prompt ''Enter YouTube URL: '', ExtractInfo ''https://youtu.be/x'', InfoGet ''url'',
        Print ''Starting video playback...'', NewPlayer ''https://cdn/v.mp4'', Play,
        Sleep 1000, GetState, PrintState ''Initial VLC player state:'' Opening, StartListener,
        GetState, Sleep 1000, GetState, Sleep 1000, GetState, Sleep 1000,
        Print ''Playback interrupted by user (KeyboardInterrupt).'',
        Print ''Video playback ended.'']"
proof -
  let ?w = "demo_world (Returned (Some direct_info)) (Returned ()) 0
          ([Reports Playing, Reports Stopped] @ InterruptedSleeping Paused # [Reports Ended])"
  have h1: "strip (typed ?w) = ''https://youtu.be/x''" by (simp add: demo_world_def strip_demo)
  have h2: "''https://youtu.be/x'' \<noteq> []" by simp
  have h3: "get_video_stream_url ''https://youtu.be/x'' (extract_info ?w ''https://youtu.be/x'')
          = ([ExtractInfo ''https://youtu.be/x'', InfoGet ''url''], Some ''https://cdn/v.mp4'')"
    by (simp add: demo_world_def direct_info_def)
  have h4: "''https://cdn/v.mp4'' \<noteq> []" by simp
  have h5: "MediaPlayer ?w ''https://cdn/v.mp4'' = Returned ()" by (simp add: demo_world_def)
  have h6: "play ?w \<noteq> - 1" by (simp add: demo_world_def)
  have h7: "ticks ?w = [Reports Playing, Reports Stopped] @ InterruptedSleeping Paused # [Reports Ended]"
    by (simp add: demo_world_def)
  have h8: "list_all keeps_waiting [Reports Playing, Reports Stopped]" by (simp add: terminal_def)
  have h9: "interrupts (InterruptedSleeping Paused)" by (simp add: terminal_def)
  have t: "main ?w = main (?w\<lparr>ticks := [Reports Playing, Reports Stopped] @ [InterruptedSleeping Paused]\<rparr>)"
    using interrupt_is_normal_termination [OF h1 h2 h3 h4 h5 h6 h7 h8 h9] by blast
  have "main (?w\<lparr>ticks := [Reports Playing, Reports Stopped] @ [InterruptedSleeping Paused]\<rparr>) =
     ([Prompt ''Enter YouTube URL: '', ExtractInfo ''https://youtu.be/x'', InfoGet ''url'',
        Print ''Starting video playback...'', NewPlayer ''https://cdn/v.mp4'', Play,
        Sleep 1000, GetState, PrintState ''Initial VLC player state:'' Opening, StartListener,
        GetState, Sleep 1000, GetState, Sleep 1000, GetState, Sleep 1000,
        Print ''Playback interrupted by user (KeyboardInterrupt).'',
        Print ''Video playback ended.''], Some 0)"
    by (simp add: main_def demo_world_def strip_demo direct_info_def wait_phase_def terminal_def
        interrupted_text_def)
  with t show ?thesis by simp
qed

text \<open>
  C7. In line-input mode, on the lines \<^verbatim>\<open>p\<close>, \<^verbatim>\<open>x\<close>, \<^verbatim>\<open>q\<close> the listener issues
  exactly one \<^verbatim>\<open>pause\<close> and then exactly one \<^verbatim>\<open>stop\<close> to the player; the line
  \<^verbatim>\<open>x\<close> gives the rejection message and the next prompt and no command; and the loop
  is left after \<^verbatim>\<open>q\<close>, not before.
\<close>

theorem line_mode_p_x_q:
  "listen_for_controls False answers [''p'', ''x'', ''q''] =
     ([Print ''Enter command: 'q' to quit or 'p' to toggle pause/resume.'',
       Prompt ''Command: '',
       Print ''Pause/resume command received from input. Toggling pause/resume...'', Pause,
       Prompt ''Command: '', Print ''Invalid command. Please enter 'q' or 'p'.'',
       Prompt ''Command: '',
       Print ''Stop command received from input. Stopping playback...'', Stop], Left)
   \<and> filter is_command (fst (listen_for_controls False answers [''p'', ''x'', ''q''])) = [Pause, Stop]
   \<and> snd (listen_for_controls False answers [''p'', ''x'']) = Listening
   \<and> snd (listen_for_controls False answers [''p'']) = Listening
   \<and> snd (listen_for_controls False answers []) = Listening"
  by (simp add: listen_for_controls_def lower_def strip_def isspace_def lower_char_def)

text \<open>
  C9. Once a stream URL has been resolved, the start fails in exactly two cases, each
  with a diagnostic and exit status 1: the constructor of the player raises, or
  \<^verbatim>\<open>player.play()\<close> returns \<^verbatim>\<open>-1\<close>. In every other run \<^verbatim>\<open>main\<close> goes on into
  the wait phase, and its exit status is not 1.
\<close>

theorem start_failure_cases:
  assumes "strip (typed w) = y" and "y \<noteq> []"
    and "get_video_stream_url y (extract_info w y) = (tr, Some u)" and "u \<noteq> []"
  shows "case MediaPlayer w u of
           Raised e \<Rightarrow>
             main w =
               (Prompt ''Enter YouTube URL: '' # tr @
                  [Print ''Starting video playback...'', NewPlayer u,
                   Print (''Error initializing VLC MediaPlayer: '' @ e)],
                Some 1)
         | Returned player \<Rightarrow>
             if play w = - 1
             then main w =
               (Prompt ''Enter YouTube URL: '' # tr @
                  [Print ''Starting video playback...'', NewPlayer u, Play,
                   Print ''VLC failed to start playback. Check your VLC installation.''],
                Some 1)
             else main w =
                    prepend (Prompt ''Enter YouTube URL: '' # tr @
                               [Print ''Starting video playback...'', NewPlayer u, Play])
                      (wait_phase w)
                  \<and> snd (main w) \<noteq> Some 1"
proof (cases "MediaPlayer w u")
  case (Raised e)
  with main_resolved [OF assms] show ?thesis by simp
next
  case (Returned player)
  obtain tr' left where wl: "wait_loop (ticks w) = (tr', left)" by (cases "wait_loop (ticks w)")
  from Returned main_resolved [OF assms] wl show ?thesis
    by (simp add: wait_phase_def)
qed

theorem start_failure_cases_witness:
  "main (demo_world (Returned (Some direct_info)) (Raised ''no libvlc'') 0 [Reports Ended]) =
     ([Prompt ''Enter YouTube URL: '', ExtractInfo ''https://youtu.be/x'', InfoGet ''url'',
       Print ''Starting video playback...'', NewPlayer ''https://cdn/v.mp4'',
       Print ''Error initializing VLC MediaPlayer: no libvlc''], Some 1)
   \<and> main (demo_world (Returned (Some direct_info)) (Returned ()) (- 1) [Reports Ended]) =
     ([Prompt ''Enter YouTube URL: '', ExtractInfo ''https://youtu.be/x'', InfoGet ''url'',
       Print ''Starting video playback...'', NewPlayer ''https://cdn/v.mp4'', Play,
       Print ''VLC failed to start playback. Check your VLC installation.''], Some 1)
   \<and> main (demo_world (Returned (Some direct_info)) (Returned ()) 0 [Reports Ended]) =
     ([Prompt ''Enter YouTube URL: '', ExtractInfo ''https://youtu.be/x'', InfoGet ''url'',
       Print ''Starting video playback...'', NewPlayer ''https://cdn/v.mp4'', Play,
       Sleep 1000, GetState, PrintState ''Initial VLC player state:'' Opening, StartListener,
       GetState, Print ''Video playback ended.''], Some 0)"
proof -
  have g: "get_video_stream_url ''https://youtu.be/x'' (Returned (Some direct_info)) =
      ([ExtractInfo ''https://youtu.be/x'', InfoGet ''url''], Some ''https://cdn/v.mp4'')"
    by (simp add: direct_info_def)
  have n1: "''https://youtu.be/x'' \<noteq> []" and n2: "''https://cdn/v.mp4'' \<noteq> []" by simp_all
  have a: "\<And>c r ts. strip (typed (demo_world (Returned (Some direct_info)) c r ts)) = ''https://youtu.be/x''"
    by (simp add: demo_world_def strip_demo)
  have b: "\<And>c r ts. get_video_stream_url ''https://youtu.be/x''
            (extract_info (demo_world (Returned (Some direct_info)) c r ts) ''https://youtu.be/x'')
          = ([ExtractInfo ''https://youtu.be/x'', InfoGet ''url''], Some ''https://cdn/v.mp4'')"
    using g by (simp add: demo_world_def)
  note t = start_failure_cases [OF a n1 b n2]
  from t [of "Raised ''no libvlc''" 0 "[Reports Ended]"]
       t [of "Returned ()" "- 1" "[Reports Ended]"]
       t [of "Returned ()" 0 "[Reports Ended]"]
  show ?thesis by (simp add: demo_world_def wait_phase_def terminal_def)
qed

text \<open>
  C10. When the extraction result has no top-level URL and the first format whose codec is
  not \<^verbatim>\<open>none\<close> has no URL, \<^verbatim>\<open>get_video_stream_url\<close> returns \<^verbatim>\<open>None\<close>, whatever
  follows that format in the list, also when a later format has both a codec other than
  \<^verbatim>\<open>none\<close> and a URL.
\<close>

theorem fallback_stops_at_first_video_format:
  assumes "\<not> truthy (info_url i)" and "info_formats i = Listed (ns @ Dict f # rest)"
    and "list_all entry_codec_none ns" and "\<not> codec_none f" and "fmt_url f = None"
  shows "snd (get_video_stream_url yt_url (Returned (Some i))) = None"
proof -
  have "scan_formats (info_url i) (ns @ Dict f # rest) = scan_formats (info_url i) (Dict f # rest)"
    using assms(3) by (rule scan_formats_skip)
  also have "\<dots> = Returned None" using assms(4,5) by (simp add: codec_none_def)
  finally show ?thesis using assms(1,2) by simp
qed

theorem fallback_stops_at_first_video_format_witness:
  "\<not> truthy (info_url urlless_first_info)
   \<and> info_formats urlless_first_info = Listed ([Dict audio_fmt] @ Dict urlless_fmt # [Dict h264_fmt])
   \<and> list_all entry_codec_none [Dict audio_fmt] \<and> \<not> codec_none urlless_fmt
   \<and> fmt_url urlless_fmt = None
   \<and> \<not> codec_none h264_fmt \<and> fmt_url h264_fmt = Some ''https://cdn/h264''
   \<and> snd (get_video_stream_url ''https://youtu.be/x'' (Returned (Some urlless_first_info))) = None"
proof -
  have h1: "\<not> truthy (info_url urlless_first_info)" by (simp add: urlless_first_info_def)
  have h2: "info_formats urlless_first_info = Listed ([Dict audio_fmt] @ Dict urlless_fmt # [Dict h264_fmt])"
    by (simp add: urlless_first_info_def)
  have h3: "list_all entry_codec_none [Dict audio_fmt]" by (simp add: codec_none_def audio_fmt_def)
  have h4: "\<not> codec_none urlless_fmt" by (simp add: codec_none_def urlless_fmt_def)
  have h5: "fmt_url urlless_fmt = None" by (simp add: urlless_fmt_def)
  have h6: "\<not> codec_none h264_fmt \<and> fmt_url h264_fmt = Some ''https://cdn/h264''"
    by (simp add: codec_none_def h264_fmt_def)
  from fallback_stops_at_first_video_format [OF h1 h2 h3 h4 h5, of "''https://youtu.be/x''"]
    h1 h2 h3 h4 h5 h6
  show ?thesis by simp
qed

end
